theory Spec2Isabelle
  imports Complex_Main "HOL-Library.Word" "HOL-Library.Log_Nat"
begin

section \<open>The board: pins, output events, blocking waits\<close>

text \<open>
  Every sketch of the repository is a \<^verbatim>\<open>loop()\<close> that reads a few inputs and calls the
  board's primitives \<^verbatim>\<open>digitalWrite\<close>, \<^verbatim>\<open>analogWrite\<close>, \<^verbatim>\<open>delay\<close>,
  \<^verbatim>\<open>delayMicroseconds\<close>. The primitives belong to the board's core library, not to the
  repository, so they are modelled by their effect on the board: the value last written to
  each pin, and the chronological list of everything the sketch asked the board to do.
  What the board hands back to a sketch (\<^verbatim>\<open>digitalRead\<close>, \<^verbatim>\<open>pulseIn\<close>, the serial receive
  buffer) is an input of the model.
\<close>

datatype level = LOW | HIGH

datatype pin_mode = INPUT | OUTPUT

text \<open>A pin carries the level of the last \<^verbatim>\<open>digitalWrite\<close> or the duty of the last \<^verbatim>\<open>analogWrite\<close>.\<close>

datatype pin_out = Level level | Duty nat

datatype event =
    PinMode nat pin_mode
  | DigitalWrite nat level
  | AnalogWrite nat nat
  | Delay nat
  | DelayMicroseconds int
  | PulseIn nat level
  | SerialPrintln int
  | LcdPrint string
  | LcdClear

record hw =
  pins :: "nat \<Rightarrow> pin_out"
  trace :: "event list"

definition pinMode :: "nat \<Rightarrow> pin_mode \<Rightarrow> 'a hw_scheme \<Rightarrow> 'a hw_scheme" where
  "pinMode p m s = s\<lparr>trace := trace s @ [PinMode p m]\<rparr>"

definition digitalWrite :: "nat \<Rightarrow> level \<Rightarrow> 'a hw_scheme \<Rightarrow> 'a hw_scheme" where
  "digitalWrite p v s = s\<lparr>pins := (pins s)(p := Level v), trace := trace s @ [DigitalWrite p v]\<rparr>"

definition analogWrite :: "nat \<Rightarrow> nat \<Rightarrow> 'a hw_scheme \<Rightarrow> 'a hw_scheme" where
  "analogWrite p v s = s\<lparr>pins := (pins s)(p := Duty v), trace := trace s @ [AnalogWrite p v]\<rparr>"

text \<open>\<^verbatim>\<open>delay(ms)\<close> blocks the loop; the pins keep what they carry.\<close>

definition delay :: "nat \<Rightarrow> 'a hw_scheme \<Rightarrow> 'a hw_scheme" where
  "delay ms s = s\<lparr>trace := trace s @ [Delay ms]\<rparr>"

text \<open>
  \<^verbatim>\<open>delayMicroseconds(us)\<close>: the event keeps the value of the argument expression as the
  sketch computes it (a \<^verbatim>\<open>long\<close> in the parking sketch).
\<close>

definition delayMicroseconds :: "int \<Rightarrow> 'a hw_scheme \<Rightarrow> 'a hw_scheme" where
  "delayMicroseconds us s = s\<lparr>trace := trace s @ [DelayMicroseconds us]\<rparr>"

text \<open>Statements in sequence: \<^verbatim>\<open>a; b; c;\<close> is \<open>seq [a, b, c]\<close>.\<close>

fun seq :: "('s \<Rightarrow> 's) list \<Rightarrow> 's \<Rightarrow> 's" where
  "seq [] s = s"
| "seq (f # fs) s = seq fs (f s)"

text \<open>The events a piece of code adds to the trace when run from \<open>s\<close>.\<close>

definition emitted :: "('a hw_scheme \<Rightarrow> 'b hw_scheme) \<Rightarrow> 'a hw_scheme \<Rightarrow> event list" where
  "emitted f s = drop (length (trace s)) (trace (f s))"

text \<open>
  The arithmetic of C: \<^verbatim>\<open>/\<close> on integers truncates towards zero, and so does the
  conversion of a floating-point value to \<^verbatim>\<open>long\<close> (for a value the \<^verbatim>\<open>long\<close> can hold).
\<close>

definition c_div :: "int \<Rightarrow> int \<Rightarrow> int" where
  "c_div a b = sgn a * sgn b * (\<bar>a\<bar> div \<bar>b\<bar>)"

definition c_trunc :: "real \<Rightarrow> int" where
  "c_trunc x = (if 0 \<le> x then \<lfloor>x\<rfloor> else \<lceil>x\<rceil>)"

section \<open>The motor driver (RC CAR CODES.c)\<close>

text \<open>
  The four car sketches start with the same six macros (lines 6-11, 74-79, 149-154,
  225-230).
\<close>

definition speedL :: nat where "speedL = 10"
definition IN1 :: nat where "IN1 = 9"
definition IN2 :: nat where "IN2 = 8"
definition IN3 :: nat where "IN3 = 7"
definition IN4 :: nat where "IN4 = 6"
definition speedR :: nat where "speedR = 5"

lemmas motor_pins = speedL_def IN1_def IN2_def IN3_def IN4_def speedR_def

text \<open>
  \<^verbatim>\<open>forword\<close>, \<^verbatim>\<open>backword\<close>, \<^verbatim>\<open>left\<close> and \<^verbatim>\<open>right\<close> are the same text in all four sketches
  (lines 20-55, 89-124, 167-202, 251-286).
\<close>

definition forword :: "'a hw_scheme \<Rightarrow> 'a hw_scheme" where
  "forword = seq
     [digitalWrite IN1 HIGH,
      digitalWrite IN2 LOW,
      digitalWrite IN3 HIGH,
      digitalWrite IN4 LOW,
      analogWrite speedL 150,
      analogWrite speedR 150]"

definition backword :: "'a hw_scheme \<Rightarrow> 'a hw_scheme" where
  "backword = seq
     [digitalWrite IN1 LOW,
      digitalWrite IN2 HIGH,
      digitalWrite IN3 LOW,
      digitalWrite IN4 HIGH,
      analogWrite speedL 150,
      analogWrite speedR 150]"

definition left :: "'a hw_scheme \<Rightarrow> 'a hw_scheme" where
  "left = seq
     [digitalWrite IN1 LOW,
      digitalWrite IN2 LOW,
      digitalWrite IN3 HIGH,
      digitalWrite IN4 LOW,
      analogWrite speedL 0,
      analogWrite speedR 150]"

definition right :: "'a hw_scheme \<Rightarrow> 'a hw_scheme" where
  "right = seq
     [digitalWrite IN1 HIGH,
      digitalWrite IN2 LOW,
      digitalWrite IN3 LOW,
      digitalWrite IN4 LOW,
      analogWrite speedL 150,
      analogWrite speedR 0]"

text \<open>\<^verbatim>\<open>stopp\<close> of the direction test, the Bluetooth car and the line follower (lines 56-62, 125-131, 203-210).\<close>

definition stopp :: "'a hw_scheme \<Rightarrow> 'a hw_scheme" where
  "stopp = seq
     [digitalWrite IN1 LOW,
      digitalWrite IN2 LOW,
      digitalWrite IN3 LOW,
      digitalWrite IN4 LOW,
      analogWrite speedL 0,
      analogWrite speedR 0]"

text \<open>\<^verbatim>\<open>stopp\<close> of the obstacle-avoiding car (lines 287-290): two writes, both to the speed pins.\<close>

definition stopp_oa :: "'a hw_scheme \<Rightarrow> 'a hw_scheme" where
  "stopp_oa = seq
     [digitalWrite speedL LOW,
      digitalWrite speedR LOW]"

lemmas actuator_defs = forword_def backword_def left_def right_def stopp_def stopp_oa_def

subsection \<open>Reading the motor outputs off the pins\<close>

record MotorOutput =
  left_fwd :: bool
  left_bwd :: bool
  right_fwd :: bool
  right_bwd :: bool
  left_speed :: nat
  right_speed :: nat

text \<open>A direction signal is asserted when its pin is driven high.\<close>

fun asserted :: "pin_out \<Rightarrow> bool" where
  "asserted (Level v) = (v = HIGH)"
| "asserted (Duty n) = (0 < n)"

text \<open>
  The speed magnitude of an enable pin: the duty written by \<^verbatim>\<open>analogWrite\<close>; a pin
  driven low by \<^verbatim>\<open>digitalWrite\<close> has duty 0, a pin driven high is fully on.
\<close>

fun magnitude :: "pin_out \<Rightarrow> nat" where
  "magnitude (Level LOW) = 0"
| "magnitude (Level HIGH) = 255"
| "magnitude (Duty n) = n"

definition motor_of_pins :: "(nat \<Rightarrow> pin_out) \<Rightarrow> MotorOutput" where
  "motor_of_pins p =
     \<lparr>left_fwd = asserted (p IN1), left_bwd = asserted (p IN2),
      right_fwd = asserted (p IN3), right_bwd = asserted (p IN4),
      left_speed = magnitude (p speedL), right_speed = magnitude (p speedR)\<rparr>"

definition motor_output :: "'a hw_scheme \<Rightarrow> MotorOutput" where
  "motor_output s = motor_of_pins (pins s)"

text \<open>The invariant of the data model: no channel has both directions asserted.\<close>

definition dir_ok :: "MotorOutput \<Rightarrow> bool" where
  "dir_ok m = (\<not> (left_fwd m \<and> left_bwd m) \<and> \<not> (right_fwd m \<and> right_bwd m))"

subsection \<open>The command table of the specification\<close>

datatype MovementCommand = Forward | Backward | Left | Right | Stop

text \<open>
  The table of section 4.1, in its own words: direction pairs (fwd, bwd) per channel and
  a speed per channel, \<open>cl\<close> and \<open>cr\<close> being the configured speeds.
\<close>

fun spec_table :: "nat \<Rightarrow> nat \<Rightarrow> MovementCommand \<Rightarrow> MotorOutput" where
  "spec_table cl cr Forward =
     \<lparr>left_fwd = True, left_bwd = False, right_fwd = True, right_bwd = False,
      left_speed = cl, right_speed = cr\<rparr>"
| "spec_table cl cr Backward =
     \<lparr>left_fwd = False, left_bwd = True, right_fwd = False, right_bwd = True,
      left_speed = cl, right_speed = cr\<rparr>"
| "spec_table cl cr Left =
     \<lparr>left_fwd = False, left_bwd = False, right_fwd = True, right_bwd = False,
      left_speed = 0, right_speed = cr\<rparr>"
| "spec_table cl cr Right =
     \<lparr>left_fwd = True, left_bwd = False, right_fwd = False, right_bwd = False,
      left_speed = cl, right_speed = 0\<rparr>"
| "spec_table cl cr Stop =
     \<lparr>left_fwd = False, left_bwd = False, right_fwd = False, right_bwd = False,
      left_speed = 0, right_speed = 0\<rparr>"

text \<open>
  The sketches have no command type: a command is issued by calling the function of
  that name. \<open>actuator\<close> names, for each sketch, the function a command stands for.
\<close>

datatype sketch = DirectionTest | Bluetooth | LineFollower | ObstacleAvoiding

fun actuator :: "sketch \<Rightarrow> MovementCommand \<Rightarrow> 'a hw_scheme \<Rightarrow> 'a hw_scheme" where
  "actuator k Forward = forword"
| "actuator k Backward = backword"
| "actuator k Left = left"
| "actuator k Right = right"
| "actuator ObstacleAvoiding Stop = stopp_oa"
| "actuator k Stop = stopp"

text \<open>A sketch issuing the commands \<open>cs\<close> one after the other.\<close>

fun run_calls :: "sketch \<Rightarrow> MovementCommand list \<Rightarrow> 'a hw_scheme \<Rightarrow> 'a hw_scheme" where
  "run_calls k [] s = s"
| "run_calls k (c # cs) s = run_calls k cs (actuator k c s)"

text \<open>A board on which every pin is low and nothing has happened yet.\<close>

definition quiet :: hw where
  "quiet = \<lparr>pins = (\<lambda>p. Level LOW), trace = []\<rparr>"

text \<open>
  Replaying a list of events from the pins \<open>p\<close>: what the motor driver is given during
  each blocking \<^verbatim>\<open>delay\<close>, and for how many milliseconds.
\<close>

fun motor_holds :: "(nat \<Rightarrow> pin_out) \<Rightarrow> event list \<Rightarrow> (MotorOutput \<times> nat) list" where
  "motor_holds p [] = []"
| "motor_holds p (DigitalWrite q v # es) = motor_holds (p(q := Level v)) es"
| "motor_holds p (AnalogWrite q v # es) = motor_holds (p(q := Duty v)) es"
| "motor_holds p (Delay ms # es) = (motor_of_pins p, ms) # motor_holds p es"
| "motor_holds p (e # es) = motor_holds p es"

text \<open>The writes among a list of events.\<close>

fun is_write :: "event \<Rightarrow> bool" where
  "is_write (DigitalWrite q v) = True"
| "is_write (AnalogWrite q v) = True"
| "is_write e = False"

subsection \<open>Car direction test (lines 63-69)\<close>

definition loop_direction_test :: "'a hw_scheme \<Rightarrow> 'a hw_scheme" where
  "loop_direction_test = seq
     [forword, delay 2000,
      backword, delay 2000,
      right, delay 2000,
      left, delay 2000,
      stopp, delay 2000]"

subsection \<open>Car controlled over Bluetooth (lines 80, 132-143)\<close>

text \<open>
  \<open>serial_rx\<close> is the receive buffer of the serial port, oldest byte first:
  \<^verbatim>\<open>Serial.available()\<close> is its length and \<^verbatim>\<open>Serial.read()\<close> takes its first byte.
\<close>

record bt_state = hw +
  serial_rx :: "char list"
  Reading :: char

definition loop_bluetooth :: "bt_state \<Rightarrow> bt_state" where
  "loop_bluetooth s =
     (case serial_rx s of
        [] \<Rightarrow> s
      | c # rest \<Rightarrow>
          let s1 = s\<lparr>serial_rx := rest, Reading := c\<rparr> in
          if Reading s1 = CHR ''F'' then forword s1
          else if Reading s1 = CHR ''B'' then backword s1
          else if Reading s1 = CHR ''R'' then right s1
          else if Reading s1 = CHR ''L'' then left s1
          else if Reading s1 = CHR ''S'' then stopp s1
          else s1)"

text \<open>The dispatch table of section 4.5, in its own words.\<close>

definition remote_command :: "char \<Rightarrow> MovementCommand option" where
  "remote_command c =
     (if c = CHR ''F'' then Some Forward
      else if c = CHR ''B'' then Some Backward
      else if c = CHR ''R'' then Some Right
      else if c = CHR ''L'' then Some Left
      else if c = CHR ''S'' then Some Stop
      else None)"

definition bt_quiet :: bt_state where
  "bt_quiet = \<lparr>pins = (\<lambda>p. Level LOW), trace = [], serial_rx = [], Reading = CHR 0x00\<rparr>"

subsection \<open>Line follower (lines 155-158, 211-221)\<close>

definition sensorL :: nat where "sensorL = 4"
definition sensorR :: nat where "sensorR = 3"

text \<open>\<^verbatim>\<open>digitalRead\<close> returns \<^verbatim>\<open>HIGH\<close> or \<^verbatim>\<open>LOW\<close>, which are the integers 1 and 0.\<close>

fun int_of_level :: "level \<Rightarrow> int" where
  "int_of_level LOW = 0"
| "int_of_level HIGH = 1"

record lf_state = hw +
  sl :: int
  sr :: int

text \<open>\<open>readL\<close> and \<open>readR\<close> are what \<^verbatim>\<open>digitalRead\<close> finds on \<open>sensorL\<close> and \<open>sensorR\<close>.\<close>

definition loop_line_follower :: "level \<Rightarrow> level \<Rightarrow> lf_state \<Rightarrow> lf_state" where
  "loop_line_follower readL readR s =
     (let s1 = s\<lparr>sl := int_of_level readL\<rparr>;
          s2 = s1\<lparr>sr := int_of_level readR\<rparr> in
      if sl s2 = 0 \<and> sr s2 = 0 then forword s2
      else if sl s2 = 0 \<and> sr s2 = 1 then right s2
      else if sl s2 = 1 \<and> sr s2 = 0 then left s2
      else if sl s2 = 1 \<and> sr s2 = 1 then stopp s2
      else s2)"

text \<open>The table of section 4.3, in its own words: the sensor pair is (left, right).\<close>

fun line_command :: "level \<Rightarrow> level \<Rightarrow> MovementCommand" where
  "line_command LOW LOW = Forward"
| "line_command LOW HIGH = Right"
| "line_command HIGH LOW = Left"
| "line_command HIGH HIGH = Stop"

subsection \<open>Obstacle-avoiding car (lines 231-233, 242-250, 291-299)\<close>

definition trig :: nat where "trig = 3"
definition echo :: nat where "echo = 4"

text \<open>
  \<^verbatim>\<open>long duration, distance;\<close> A \<^verbatim>\<open>long\<close> has 32 bits; every value stored here fits, so the
  fields are integers and the one conversion that can change a value, from the
  \<^verbatim>\<open>unsigned long\<close> that \<^verbatim>\<open>pulseIn\<close> returns, is written out with \<open>sint\<close>.
\<close>

record sonar_state = hw +
  duration :: int
  distance :: int

text \<open>
  \<^verbatim>\<open>pulseIn(pin, value)\<close> measures a pulse on the pin. The measurement is the board's; its
  result is the input \<open>r\<close> of the functions below.
\<close>

definition pulseIn :: "nat \<Rightarrow> level \<Rightarrow> 'a hw_scheme \<Rightarrow> 'a hw_scheme" where
  "pulseIn p v s = s\<lparr>trace := trace s @ [PulseIn p v]\<rparr>"

text \<open>
  When no complete pulse arrives \<^verbatim>\<open>pulseIn\<close> gives up after its time-out (one second
  when the caller passes none, as both sketches do) and returns 0.
\<close>

definition pulseIn_timeout :: "32 word" where
  "pulseIn_timeout = 0"

text \<open>
  \<^verbatim>\<open>(duration/2) * 0.0343\<close> multiplies a \<^verbatim>\<open>long\<close> by a \<^verbatim>\<open>double\<close> literal: the board
  converts the \<^verbatim>\<open>long\<close> to its \<^verbatim>\<open>double\<close> format, the compiler rounds the literal to that
  format, and the product is rounded to it again. \<open>fmul n c\<close> is the value the board
  computes for \<^verbatim>\<open>n * c\<close>.

  \<open>ieee_mul p\<close> is that product on a board whose \<^verbatim>\<open>double\<close> is a binary floating-point
  format with a significand of \<open>p\<close> bits, rounding to nearest, ties to even: \<open>p = 24\<close>
  where a \<^verbatim>\<open>double\<close> has 4 bytes (the AVR boards), \<open>p = 53\<close> where it has 8. The
  exponent range is left unbounded; the values met here lie between 1/32 and
  2 to the power 30, well inside both formats.
\<close>

text \<open>The nearest integer, the even one of two equally near.\<close>

definition round_even :: "real \<Rightarrow> int" where
  "round_even y =
     (let f = \<lfloor>y\<rfloor> in
      if y - real_of_int f < 1 / 2 then f
      else if 1 / 2 < y - real_of_int f then f + 1
      else if even f then f else f + 1)"

text \<open>
  The binary exponent of \<open>x > 0\<close>: \<open>2 powi expo x \<le> x \<le> 2 powi (expo x + 1)\<close>. It is
  \<open>\<lfloor>log\<^sub>2 x\<rfloor>\<close>, except that a power of two below 1 gets the exponent one lower, which
  rounds it to the same value, itself.
\<close>

definition expo :: "real \<Rightarrow> int" where
  "expo x = (if 1 \<le> x then bitlen \<lfloor>x\<rfloor> - 1 else - bitlen \<lfloor>1 / x\<rfloor>)"

text \<open>\<open>fl p x\<close>: the number with a significand of \<open>p\<close> bits nearest to \<open>x\<close>.\<close>

definition fl :: "nat \<Rightarrow> real \<Rightarrow> real" where
  "fl p x =
     (if x = 0 then 0
      else let ulp = 2 powi (expo \<bar>x\<bar> - int p + 1)
           in sgn x * real_of_int (round_even (\<bar>x\<bar> / ulp)) * ulp)"

definition ieee_mul :: "nat \<Rightarrow> int \<Rightarrow> real \<Rightarrow> real" where
  "ieee_mul p n c = fl p (fl p (real_of_int n) * fl p c)"

definition Ultrasonic :: "(int \<Rightarrow> real \<Rightarrow> real) \<Rightarrow> 32 word \<Rightarrow> sonar_state \<Rightarrow> sonar_state" where
  "Ultrasonic fmul r = seq
     [digitalWrite trig LOW,
      delayMicroseconds 2,
      digitalWrite trig HIGH,
      delayMicroseconds 10,
      digitalWrite trig LOW,
      pulseIn echo HIGH,
      (\<lambda>s. s\<lparr>duration := sint r\<rparr>),
      (\<lambda>s. s\<lparr>distance := c_trunc (fmul (c_div (duration s) 2) 0.0343)\<rparr>)]"

definition loop_obstacle :: "(int \<Rightarrow> real \<Rightarrow> real) \<Rightarrow> 32 word \<Rightarrow> sonar_state \<Rightarrow> sonar_state" where
  "loop_obstacle fmul r s =
     (let s1 = Ultrasonic fmul r s in
      if distance s1 < 20 then
        seq [stopp_oa, delay 250,
             backword, delay 500,
             right, delay 1000] s1
      else forword s1)"

definition sonar_quiet :: sonar_state where
  "sonar_quiet = \<lparr>pins = (\<lambda>p. Level LOW), trace = [], duration = 0, distance = 0\<rparr>"

section \<open>The parking buzzer\<close>

text \<open>
  The sketch declares the same two globals, \<^verbatim>\<open>long duration , distance ;\<close>, and one pin
  serves as trigger and echo.
\<close>

definition ULtrsonic :: nat where "ULtrsonic = 6"
definition Buzzer :: nat where "Buzzer = 2"

definition Serial_println :: "int \<Rightarrow> 'a hw_scheme \<Rightarrow> 'a hw_scheme" where
  "Serial_println n s = s\<lparr>trace := trace s @ [SerialPrintln n]\<rparr>"

definition loop_parking :: "(int \<Rightarrow> real \<Rightarrow> real) \<Rightarrow> 32 word \<Rightarrow> sonar_state \<Rightarrow> sonar_state" where
  "loop_parking fmul r = seq
     [pinMode ULtrsonic OUTPUT,
      digitalWrite ULtrsonic LOW,
      delayMicroseconds 2,
      digitalWrite ULtrsonic HIGH,
      delayMicroseconds 10,
      digitalWrite ULtrsonic LOW,
      pinMode ULtrsonic INPUT,
      pulseIn ULtrsonic HIGH,
      (\<lambda>s. s\<lparr>duration := sint r\<rparr>),
      (\<lambda>s. s\<lparr>distance := c_trunc (fmul (c_div (duration s) 2) 0.0343)\<rparr>),
      (\<lambda>s. Serial_println (distance s) s),
      delay 5,
      digitalWrite Buzzer HIGH,
      (\<lambda>s. delayMicroseconds (c_div (duration s) 2) s),
      digitalWrite Buzzer LOW,
      (\<lambda>s. delayMicroseconds (c_div (duration s) 2) s)]"

text \<open>
  The waveform a list of events puts on pin \<open>p\<close>: each level written to it, with the
  microseconds of blocking wait that follow before the next write to it (or the end of
  the list).
\<close>

fun held :: "nat \<Rightarrow> event list \<Rightarrow> int" where
  "held p [] = 0"
| "held p (DigitalWrite q v # es) = (if q = p then 0 else held p es)"
| "held p (AnalogWrite q v # es) = (if q = p then 0 else held p es)"
| "held p (Delay ms # es) = 1000 * int ms + held p es"
| "held p (DelayMicroseconds us # es) = us + held p es"
| "held p (e # es) = held p es"

fun wave :: "nat \<Rightarrow> event list \<Rightarrow> (level \<times> int) list" where
  "wave p [] = []"
| "wave p (DigitalWrite q v # es) = (if q = p then (v, held p es) # wave p es else wave p es)"
| "wave p (e # es) = wave p es"

section \<open>The two LEDs, the push button and the display\<close>

text \<open>
  The sketch as stored has lost line breaks: \<^verbatim>\<open>#define Green_led 4 int button_Reading ; int counter = 0;\<close>
  is one line. It is read as the macro followed by the two declarations.
\<close>

definition button :: nat where "button = 2"
definition Red_led :: nat where "Red_led = 3"
definition Green_led :: nat where "Green_led = 4"

record led_state = hw +
  button_Reading :: int
  counter :: int

definition lcd_print :: "string \<Rightarrow> 'a hw_scheme \<Rightarrow> 'a hw_scheme" where
  "lcd_print txt s = s\<lparr>trace := trace s @ [LcdPrint txt]\<rparr>"

definition lcd_clear :: "'a hw_scheme \<Rightarrow> 'a hw_scheme" where
  "lcd_clear s = s\<lparr>trace := trace s @ [LcdClear]\<rparr>"

text \<open>
  \<open>pressed\<close> is what \<^verbatim>\<open>digitalRead(button)\<close> finds. \<^verbatim>\<open>counter++\<close> runs only when the
  counter is 0, so it cannot overflow.
\<close>

definition loop_led :: "level \<Rightarrow> led_state \<Rightarrow> led_state" where
  "loop_led pressed s =
     (let s1 = s\<lparr>button_Reading := int_of_level pressed\<rparr> in
      if button_Reading s1 = 1 \<and> counter s1 = 0 then
        seq [digitalWrite Red_led HIGH,
             (\<lambda>s. s\<lparr>counter := counter s + 1\<rparr>),
             lcd_print ''Red led '',
             digitalWrite Green_led LOW,
             delay 1000] s1
      else if button_Reading s1 = 1 \<and> counter s1 = 1 then
        seq [digitalWrite Red_led LOW,
             digitalWrite Green_led HIGH,
             lcd_print ''Green led '',
             (\<lambda>s. s\<lparr>counter := 0\<rparr>),
             delay 1000] s1
      else
        seq [digitalWrite Red_led LOW,
             digitalWrite Green_led LOW,
             lcd_clear] s1)"

text \<open>The state as the sketch starts: \<^verbatim>\<open>int counter = 0;\<close>\<close>

definition led_quiet :: led_state where
  "led_quiet = \<lparr>pins = (\<lambda>p. Level LOW), trace = [], button_Reading = 0, counter = 0\<rparr>"

definition led_on :: "nat \<Rightarrow> 'a hw_scheme \<Rightarrow> bool" where
  "led_on p s = (pins s p = Level HIGH)"

lemmas prim_defs = pinMode_def digitalWrite_def analogWrite_def delay_def
  delayMicroseconds_def pulseIn_def Serial_println_def lcd_print_def lcd_clear_def


section \<open>What each actuator function leaves on the motor driver\<close>

lemma motor_forword: "motor_output (forword s) = spec_table 150 150 Forward"
  by (simp add: forword_def motor_output_def motor_of_pins_def digitalWrite_def analogWrite_def motor_pins)

lemma motor_backword: "motor_output (backword s) = spec_table 150 150 Backward"
  by (simp add: backword_def motor_output_def motor_of_pins_def digitalWrite_def analogWrite_def motor_pins)

lemma motor_left: "motor_output (left s) = spec_table 150 150 Left"
  by (simp add: left_def motor_output_def motor_of_pins_def digitalWrite_def analogWrite_def motor_pins)

lemma motor_right: "motor_output (right s) = spec_table 150 150 Right"
  by (simp add: right_def motor_output_def motor_of_pins_def digitalWrite_def analogWrite_def motor_pins)

lemma motor_stopp: "motor_output (stopp s) = spec_table 150 150 Stop"
  by (simp add: stopp_def motor_output_def motor_of_pins_def digitalWrite_def analogWrite_def motor_pins)

lemma motor_stopp_oa:
  "motor_output (stopp_oa s) = (motor_output s)\<lparr>left_speed := 0, right_speed := 0\<rparr>"
  by (simp add: stopp_oa_def motor_output_def motor_of_pins_def digitalWrite_def motor_pins)

lemmas motor_after = motor_forword motor_backword motor_left motor_right motor_stopp motor_stopp_oa

lemma motor_actuator_std:
  "k \<noteq> ObstacleAvoiding \<Longrightarrow> motor_output (actuator k m s) = spec_table 150 150 m"
  by (cases m; cases k) (simp_all add: motor_after)

lemma emitted_trace: "trace (f s) = trace s @ es \<Longrightarrow> emitted f s = es"
  by (simp add: emitted_def)

text \<open>
  C1 (as amended). Every actuator function of every car sketch leaves on the motor driver
  exactly the row of the table of section 4.1 for its command, the configured speed being
  150 on both channels, with one exception: \<^verbatim>\<open>stopp\<close> of the obstacle-avoiding car drives
  both speeds to 0 and leaves the four direction signals as they were.
\<close>

theorem actuator_table:
  "motor_output (actuator k c s) =
     (if k = ObstacleAvoiding \<and> c = Stop
      then (motor_output s)\<lparr>left_speed := 0, right_speed := 0\<rparr>
      else spec_table 150 150 c)"
  by (cases c; cases k) (simp_all add: motor_after)

theorem actuator_table_witness:
  "motor_output (actuator ObstacleAvoiding Stop (forword quiet)) =
     \<lparr>left_fwd = True, left_bwd = False, right_fwd = True, right_bwd = False,
      left_speed = 0, right_speed = 0\<rparr>
   \<and> motor_output (actuator LineFollower Stop (forword quiet)) = spec_table 150 150 Stop"
  using actuator_table [of ObstacleAvoiding Stop "forword quiet"]
    actuator_table [of LineFollower Stop "forword quiet"]
  by (simp add: motor_forword)

text \<open>
  The Stop row does not hold in every sketch: the obstacle-avoiding car that drove forward and then stops keeps
  both forward signals asserted, where the table has (0,0) and (0,0) for Stop.
\<close>

theorem stop_table_counterexample:
  "motor_output (actuator ObstacleAvoiding Stop (actuator ObstacleAvoiding Forward quiet))
     \<noteq> spec_table 150 150 Stop"
  by (simp add: motor_stopp_oa motor_forword)

section \<open>Directions of one channel\<close>

text \<open>Every row of the table satisfies the invariant.\<close>

lemma dir_ok_table: "dir_ok (spec_table a b c)"
  by (cases c) (simp_all add: dir_ok_def)

text \<open>Every actuator function but the short \<^verbatim>\<open>stopp\<close> establishes it from any state.\<close>

lemma dir_ok_every_write:
  "k \<noteq> ObstacleAvoiding \<or> c \<noteq> Stop \<Longrightarrow> dir_ok (motor_output (actuator k c s))"
  by (cases c; cases k) (simp_all add: motor_after dir_ok_def)

lemma dir_ok_actuator: "dir_ok (motor_output s) \<Longrightarrow> dir_ok (motor_output (actuator k c s))"
  by (cases c; cases k) (simp_all add: motor_after dir_ok_def)

text \<open>
  C2. The forward and the backward signal of one channel (IN1/IN2 left, IN3/IN4 right) are
  never asserted together: on a board where they are not, as after reset, they are not
  after any sequence of actuator calls of any sketch.
\<close>

theorem directions_never_both:
  "dir_ok (motor_output s) \<Longrightarrow> dir_ok (motor_output (run_calls k cs s))"
  by (induction cs arbitrary: s) (simp_all add: dir_ok_actuator)

theorem directions_never_both_witness:
  "dir_ok (motor_output quiet) \<and>
   dir_ok (motor_output (run_calls ObstacleAvoiding [Forward, Stop, Backward, Stop, Right] quiet))"
proof -
  have q: "dir_ok (motor_output quiet)"
    by (simp add: dir_ok_def motor_output_def motor_of_pins_def quiet_def)
  show ?thesis
    using q directions_never_both [OF q, of ObstacleAvoiding "[Forward, Stop, Backward, Stop, Right]"]
    by simp
qed

text \<open>
  C8. From every state of the pins, \<^verbatim>\<open>stopp\<close> leaves both speed magnitudes at 0, in the
  implementation of the first three sketches and in that of the obstacle-avoiding car.
\<close>

theorem stop_speeds_zero:
  "left_speed (motor_output (stopp s)) = 0 \<and> right_speed (motor_output (stopp s)) = 0 \<and>
   left_speed (motor_output (stopp_oa s)) = 0 \<and> right_speed (motor_output (stopp_oa s)) = 0"
  by (simp add: motor_stopp motor_stopp_oa)

section \<open>Line follower\<close>

text \<open>
  C6. One pass of the line follower's loop calls the actuator function of the command the
  table of section 4.3 gives for the sensor pair, and nothing else: (0,0) Forward,
  (0,1) Right, (1,0) Left, (1,1) Stop. The motor output depends on the pair alone.
\<close>

theorem line_follower_table:
  "loop_line_follower readL readR s =
     actuator LineFollower (line_command readL readR)
       (s\<lparr>sl := int_of_level readL, sr := int_of_level readR\<rparr>)
   \<and> motor_output (loop_line_follower readL readR s) = spec_table 150 150 (line_command readL readR)"
  by (cases readL; cases readR) (simp_all add: loop_line_follower_def motor_after)

section \<open>Remote commands\<close>

lemma bt_dispatch:
  "serial_rx s = c # rest \<Longrightarrow> remote_command c = Some m \<Longrightarrow>
     loop_bluetooth s = actuator Bluetooth m (s\<lparr>serial_rx := rest, Reading := c\<rparr>)"
  by (auto simp add: loop_bluetooth_def remote_command_def split: if_splits)

lemma bt_ignore:
  "serial_rx s = c # rest \<Longrightarrow> remote_command c = None \<Longrightarrow>
     loop_bluetooth s = s\<lparr>serial_rx := rest, Reading := c\<rparr>"
  by (auto simp add: loop_bluetooth_def remote_command_def split: if_splits)

lemma serial_rx_actuator: "serial_rx (actuator k m s) = serial_rx s"
  by (cases m; cases k) (simp_all add: actuator_defs prim_defs)

text \<open>
  C7. With a byte \<open>c\<close> waiting, one pass of the Bluetooth loop takes it; if \<open>c\<close> is one of
  F, B, R, L, S the pass is the call of the actuator function of that command, and for any
  other byte no pin changes and nothing is written. After F, Z, S the motor driver has
  Forward, then the same pins and the same trace, then Stop.
\<close>

theorem remote_dispatch:
  "serial_rx s = c # rest \<Longrightarrow>
     (\<forall>m. remote_command c = Some m \<longrightarrow>
        loop_bluetooth s = actuator Bluetooth m (s\<lparr>serial_rx := rest, Reading := c\<rparr>) \<and>
        motor_output (loop_bluetooth s) = spec_table 150 150 m) \<and>
     (remote_command c = None \<longrightarrow>
        pins (loop_bluetooth s) = pins s \<and> trace (loop_bluetooth s) = trace s) \<and>
     serial_rx (loop_bluetooth s) = rest \<and>
     (c = CHR ''F'' \<and> rest = ''ZS'' \<longrightarrow>
        motor_output (loop_bluetooth s) = spec_table 150 150 Forward \<and>
        pins (loop_bluetooth (loop_bluetooth s)) = pins (loop_bluetooth s) \<and>
        trace (loop_bluetooth (loop_bluetooth s)) = trace (loop_bluetooth s) \<and>
        motor_output (loop_bluetooth (loop_bluetooth (loop_bluetooth s))) = spec_table 150 150 Stop)"
proof -
  assume rx: "serial_rx s = c # rest"
  have step: "serial_rx (loop_bluetooth t) = rest'" if "serial_rx t = c' # rest'" for t c' rest'
  proof (cases "remote_command c'")
    case None
    with that show ?thesis by (simp add: bt_ignore)
  next
    case (Some m)
    with that show ?thesis by (simp add: bt_dispatch serial_rx_actuator)
  qed
  have known: "motor_output (loop_bluetooth t) = spec_table 150 150 m"
    if "serial_rx t = c' # rest'" "remote_command c' = Some m" for t c' rest' m
    using that by (simp add: bt_dispatch motor_actuator_std)
  have unknown: "pins (loop_bluetooth t) = pins t \<and> trace (loop_bluetooth t) = trace t"
    if "serial_rx t = c' # rest'" "remote_command c' = None" for t c' rest'
    using that by (simp add: bt_ignore)
  have scenario: "motor_output (loop_bluetooth s) = spec_table 150 150 Forward \<and>
        pins (loop_bluetooth (loop_bluetooth s)) = pins (loop_bluetooth s) \<and>
        trace (loop_bluetooth (loop_bluetooth s)) = trace (loop_bluetooth s) \<and>
        motor_output (loop_bluetooth (loop_bluetooth (loop_bluetooth s))) = spec_table 150 150 Stop"
    if "c = CHR ''F''" "rest = ''ZS''"
  proof -
    let ?s1 = "loop_bluetooth s" and ?s2 = "loop_bluetooth (loop_bluetooth s)"
    have r1: "serial_rx ?s1 = CHR ''Z'' # ''S''" using step [OF rx] that by simp
    have r2: "serial_rx ?s2 = CHR ''S'' # []" using step [OF r1] by simp
    have "remote_command c = Some Forward" using that by (simp add: remote_command_def)
    from known [OF rx this] have a: "motor_output ?s1 = spec_table 150 150 Forward" .
    have "remote_command (CHR ''Z'') = None" by (simp add: remote_command_def)
    from unknown [OF r1 this] have b: "pins ?s2 = pins ?s1 \<and> trace ?s2 = trace ?s1" .
    have "remote_command (CHR ''S'') = Some Stop" by (simp add: remote_command_def)
    from known [OF r2 this] have "motor_output (loop_bluetooth ?s2) = spec_table 150 150 Stop" .
    with a b show ?thesis by simp
  qed
  show ?thesis
    using step [OF rx] known [OF rx] unknown [OF rx] bt_dispatch [OF rx] scenario by blast
qed

theorem remote_dispatch_witness:
  "motor_output (loop_bluetooth (bt_quiet\<lparr>serial_rx := ''FZS''\<rparr>)) = spec_table 150 150 Forward \<and>
   trace (loop_bluetooth (loop_bluetooth (bt_quiet\<lparr>serial_rx := ''FZS''\<rparr>))) =
     trace (loop_bluetooth (bt_quiet\<lparr>serial_rx := ''FZS''\<rparr>)) \<and>
   motor_output (loop_bluetooth (loop_bluetooth (loop_bluetooth (bt_quiet\<lparr>serial_rx := ''FZS''\<rparr>)))) =
     spec_table 150 150 Stop \<and>
   trace (loop_bluetooth (bt_quiet\<lparr>serial_rx := ''Z''\<rparr>)) = []"
proof -
  have a: "serial_rx (bt_quiet\<lparr>serial_rx := ''FZS''\<rparr>) = CHR ''F'' # ''ZS''" by simp
  have b: "serial_rx (bt_quiet\<lparr>serial_rx := ''Z''\<rparr>) = CHR ''Z'' # []" by simp
  have n: "remote_command (CHR ''Z'') = None" by (simp add: remote_command_def)
  have q: "trace (bt_quiet\<lparr>serial_rx := ''Z''\<rparr>) = []" by (simp add: bt_quiet_def)
  show ?thesis
    using remote_dispatch [OF a] remote_dispatch [OF b] n q by simp
qed

section \<open>Rounding to the floating-point format\<close>

lemma round_even_err: "\<bar>real_of_int (round_even y) - y\<bar> \<le> 1 / 2"
  unfolding round_even_def Let_def by (auto; linarith)

lemma round_even_nonneg: "0 \<le> y \<Longrightarrow> 0 \<le> round_even y"
  unfolding round_even_def Let_def by (auto; linarith)

lemma expo_le:
  assumes "0 < x"
  shows "2 powi expo x \<le> x"
proof (cases "1 \<le> x")
  case True
  then have k: "0 < \<lfloor>x\<rfloor>" by simp
  from bitlen_bounds [OF k] have "(2::int) ^ nat (bitlen \<lfloor>x\<rfloor> - 1) \<le> \<lfloor>x\<rfloor>" by simp
  then have "real_of_int (2 ^ nat (bitlen \<lfloor>x\<rfloor> - 1)) \<le> real_of_int \<lfloor>x\<rfloor>"
    by (simp only: of_int_le_iff)
  moreover have "real_of_int \<lfloor>x\<rfloor> \<le> x" by (rule of_int_floor_le)
  moreover have "real_of_int (2 ^ nat (bitlen \<lfloor>x\<rfloor> - 1)) = 2 ^ nat (bitlen \<lfloor>x\<rfloor> - 1)"
    by simp
  ultimately have a: "(2::real) ^ nat (bitlen \<lfloor>x\<rfloor> - 1) \<le> x" by linarith
  have "1 \<le> bitlen \<lfloor>x\<rfloor>" using k by (simp add: bitlen_alt_def)
  then have "(2::real) powi (bitlen \<lfloor>x\<rfloor> - 1) = 2 ^ nat (bitlen \<lfloor>x\<rfloor> - 1)"
    by (simp add: power_int_def)
  with a True show ?thesis by (simp add: expo_def)
next
  case False
  let ?z = "1 / x"
  let ?k = "\<lfloor>?z\<rfloor>"
  from False assms have z: "1 < ?z" by simp
  then have k: "0 < ?k" by simp
  from bitlen_bounds [OF k] have "?k < 2 ^ nat (bitlen ?k)" by simp
  then have "?k + 1 \<le> 2 ^ nat (bitlen ?k)" by simp
  then have "real_of_int (?k + 1) \<le> real_of_int (2 ^ nat (bitlen ?k))"
    by (simp only: of_int_le_iff)
  moreover have "?z < real_of_int (?k + 1)" by linarith
  moreover have "real_of_int (2 ^ nat (bitlen ?k)) = 2 ^ nat (bitlen ?k)" by simp
  ultimately have "?z < 2 ^ nat (bitlen ?k)" by linarith
  then have "1 < x * 2 ^ nat (bitlen ?k)" using assms by (simp add: field_simps)
  then have b: "1 / 2 ^ nat (bitlen ?k) < x" by (simp add: field_simps)
  have "0 \<le> bitlen ?k" by (rule bitlen_nonneg)
  then have "(2::real) powi (- bitlen ?k) = 1 / 2 ^ nat (bitlen ?k)"
    by (simp add: power_int_def field_simps)
  with b False show ?thesis by (simp add: expo_def)
qed

text \<open>Rounding to \<open>p\<close> bits moves a number by at most the fraction \<open>1 / 2 ^ p\<close> of itself.\<close>

lemma fl_err: "\<bar>fl p x - x\<bar> \<le> \<bar>x\<bar> / 2 ^ p"
proof (cases "x = 0")
  case True
  then show ?thesis by (simp add: fl_def)
next
  case False
  define a where "a = \<bar>x\<bar>"
  define ulp :: real where "ulp = 2 powi (expo a - int p + 1)"
  define m where "m = real_of_int (round_even (a / ulp))"
  have a: "0 < a" using False by (simp add: a_def)
  have ulp: "0 < ulp" by (simp add: ulp_def)
  have "ulp = 2 powi expo a * 2 powi (1 - int p)"
    unfolding ulp_def by (simp add: power_int_add [symmetric] algebra_simps)
  also have "(2::real) powi (1 - int p) = 2 / 2 ^ p"
    by (simp add: power_int_diff)
  finally have half: "ulp / 2 = 2 powi expo a / 2 ^ p" by simp
  have "\<bar>m - a / ulp\<bar> \<le> 1 / 2" unfolding m_def by (rule round_even_err)
  then have "\<bar>m - a / ulp\<bar> * ulp \<le> 1 / 2 * ulp"
    using ulp by (intro mult_right_mono) simp_all
  moreover have "\<bar>m - a / ulp\<bar> * ulp = \<bar>m * ulp - a\<bar>"
  proof -
    have "(m - a / ulp) * ulp = m * ulp - a" using ulp by (simp add: field_simps)
    then have "\<bar>m * ulp - a\<bar> = \<bar>m - a / ulp\<bar> * \<bar>ulp\<bar>" by (simp only: abs_mult [symmetric])
    then show ?thesis using ulp by simp
  qed
  ultimately have "\<bar>m * ulp - a\<bar> \<le> 2 powi expo a / 2 ^ p" using half by simp
  also have "\<dots> \<le> a / 2 ^ p" using expo_le [OF a] by (simp add: divide_right_mono)
  finally have main: "\<bar>m * ulp - a\<bar> \<le> a / 2 ^ p" .
  have flx: "fl p x = sgn x * (m * ulp)"
    using False by (simp add: fl_def m_def ulp_def a_def Let_def)
  have "x = sgn x * a" by (simp add: a_def sgn_mult_abs)
  then have "fl p x - x = sgn x * (m * ulp - a)" using flx by (simp add: right_diff_distrib)
  then have "\<bar>fl p x - x\<bar> = \<bar>m * ulp - a\<bar>" using False by (simp add: abs_mult abs_sgn_eq)
  with main show ?thesis by (simp add: a_def)
qed

lemma fl_nonneg: "0 \<le> x \<Longrightarrow> 0 \<le> fl p x"
  by (simp add: fl_def Let_def sgn_if round_even_nonneg)

lemma fl_bounds:
  assumes "0 \<le> x"
  shows "x * (1 - 1 / 2 ^ p) \<le> fl p x" and "fl p x \<le> x * (1 + 1 / 2 ^ p)"
  using fl_err [of p x] assms by (simp_all add: algebra_simps; linarith)+

text \<open>The product rounds three times: the converted \<^verbatim>\<open>long\<close>, the literal, the result.\<close>

lemma ieee_mul_bounds:
  assumes n: "0 \<le> n" and c: "0 \<le> c"
  shows "real_of_int n * c * (1 - 1 / 2 ^ p) ^ 3 \<le> ieee_mul p n c"
    and "ieee_mul p n c \<le> real_of_int n * c * (1 + 1 / 2 ^ p) ^ 3"
    and "0 \<le> ieee_mul p n c"
proof -
  define u :: real where "u = 1 / 2 ^ p"
  define a where "a = fl p (real_of_int n)"
  define b where "b = fl p c"
  have u: "0 \<le> 1 - u" "0 \<le> 1 + u" by (simp_all add: u_def)
  have n': "0 \<le> real_of_int n" using n by simp
  have a0: "0 \<le> a" unfolding a_def using n' by (rule fl_nonneg)
  have b0: "0 \<le> b" unfolding b_def using c by (rule fl_nonneg)
  have al: "real_of_int n * (1 - u) \<le> a" and au: "a \<le> real_of_int n * (1 + u)"
    unfolding a_def u_def using fl_bounds [OF n'] by simp_all
  have bl: "c * (1 - u) \<le> b" and bu: "b \<le> c * (1 + u)"
    unfolding b_def u_def using fl_bounds [OF c] by simp_all
  have ab0: "0 \<le> a * b" using a0 b0 by simp
  have pl: "a * b * (1 - u) \<le> fl p (a * b)" and pu: "fl p (a * b) \<le> a * b * (1 + u)"
    unfolding u_def using fl_bounds [OF ab0] by simp_all
  have "(real_of_int n * (1 - u)) * (c * (1 - u)) \<le> a * b"
    using al bl a0 n' c u by (intro mult_mono) simp_all
  then have "(real_of_int n * (1 - u)) * (c * (1 - u)) * (1 - u) \<le> a * b * (1 - u)"
    using u by (intro mult_right_mono) simp_all
  with pl have "(real_of_int n * (1 - u)) * (c * (1 - u)) * (1 - u) \<le> fl p (a * b)" by linarith
  then show "real_of_int n * c * (1 - 1 / 2 ^ p) ^ 3 \<le> ieee_mul p n c"
    by (simp add: ieee_mul_def a_def b_def u_def power3_eq_cube algebra_simps)
  have "a * b \<le> (real_of_int n * (1 + u)) * (c * (1 + u))"
    using au bu a0 b0 n' c u by (intro mult_mono) simp_all
  then have "a * b * (1 + u) \<le> (real_of_int n * (1 + u)) * (c * (1 + u)) * (1 + u)"
    using u by (intro mult_right_mono) simp_all
  with pu have "fl p (a * b) \<le> (real_of_int n * (1 + u)) * (c * (1 + u)) * (1 + u)" by linarith
  then show "ieee_mul p n c \<le> real_of_int n * c * (1 + 1 / 2 ^ p) ^ 3"
    by (simp add: ieee_mul_def a_def b_def u_def power3_eq_cube algebra_simps)
  show "0 \<le> ieee_mul p n c"
    unfolding ieee_mul_def using ab0 [unfolded a_def b_def] by (rule fl_nonneg)
qed

lemma ieee_mul_zero: "ieee_mul p 0 c = 0"
  by (simp add: ieee_mul_def fl_def)

text \<open>Products the witnesses below need, on a board with 4-byte doubles.\<close>

lemma product_25: "c_trunc (ieee_mul 24 25 (343 / 10000)) = 0"
  by code_simp

lemma product_500: "c_trunc (ieee_mul 24 500 (343 / 10000)) = 17"
  by code_simp

lemma product_583: "c_trunc (ieee_mul 24 583 (343 / 10000)) = 19"
  by code_simp

lemma product_584: "c_trunc (ieee_mul 24 584 (343 / 10000)) = 20"
  by code_simp

lemma product_1000: "c_trunc (ieee_mul 24 1000 (343 / 10000)) = 34"
  by code_simp

lemma product_500_wide: "c_trunc (ieee_mul 53 500 (343 / 10000)) = 17"
  by code_simp

section \<open>The distance computed from an echo\<close>

lemma c_div_2: "0 \<le> d \<Longrightarrow> c_div d 2 = d div 2"
  by (cases "d = 0") (simp_all add: c_div_def)

lemma half_bounds:
  fixes d :: int
  shows "real_of_int d / 2 - 1 / 2 \<le> real_of_int (d div 2)"
    and "real_of_int (d div 2) \<le> real_of_int d / 2"
proof -
  have "d = 2 * (d div 2) + d mod 2" by simp
  moreover have "0 \<le> d mod 2" "d mod 2 \<le> 1" by simp_all
  ultimately have "2 * (d div 2) \<le> d" "d - 1 \<le> 2 * (d div 2)" by linarith+
  then have "real_of_int (2 * (d div 2)) \<le> real_of_int d"
    "real_of_int (d - 1) \<le> real_of_int (2 * (d div 2))"
    by (simp_all only: of_int_le_iff)
  then show "real_of_int d / 2 - 1 / 2 \<le> real_of_int (d div 2)"
    and "real_of_int (d div 2) \<le> real_of_int d / 2"
    by simp_all
qed

lemma distance_Ultrasonic:
  "distance (Ultrasonic fmul r s) = c_trunc (fmul (c_div (sint r) 2) 0.0343)"
  by (simp add: Ultrasonic_def prim_defs)

lemma duration_Ultrasonic: "duration (Ultrasonic fmul r s) = sint r"
  by (simp add: Ultrasonic_def prim_defs)

lemma distance_parking:
  "distance (loop_parking fmul r s) = c_trunc (fmul (c_div (sint r) 2) 0.0343)"
  by (simp add: loop_parking_def prim_defs)

lemma sonar_product:
  assumes d: "0 \<le> d" and c: "0 \<le> c"
  shows "c_trunc (ieee_mul p (c_div d 2) c) = \<lfloor>ieee_mul p (d div 2) c\<rfloor>"
    and "ieee_mul p (d div 2) c \<le> real_of_int d / 2 * c * (1 + 1 / 2 ^ p) ^ 3"
    and "(real_of_int d / 2 - 1 / 2) * c * (1 - 1 / 2 ^ p) ^ 3 \<le> ieee_mul p (d div 2) c"
proof -
  let ?n = "d div 2"
  have n: "0 \<le> ?n" using d by simp
  show "c_trunc (ieee_mul p (c_div d 2) c) = \<lfloor>ieee_mul p ?n c\<rfloor>"
    using ieee_mul_bounds(3) [OF n c, of p] d by (simp add: c_trunc_def c_div_2)
  have up: "0 \<le> c * (1 + 1 / 2 ^ p) ^ 3" using c by simp
  have "ieee_mul p ?n c \<le> real_of_int ?n * (c * (1 + 1 / 2 ^ p) ^ 3)"
    using ieee_mul_bounds(2) [OF n c, of p] by (simp only: mult.assoc)
  also have "\<dots> \<le> real_of_int d / 2 * (c * (1 + 1 / 2 ^ p) ^ 3)"
    using half_bounds(2) [of d] up by (rule mult_right_mono)
  finally show "ieee_mul p ?n c \<le> real_of_int d / 2 * c * (1 + 1 / 2 ^ p) ^ 3"
    by (simp only: mult.assoc)
  have "(0::real) \<le> 1 - 1 / 2 ^ p" by simp
  then have lo: "0 \<le> c * (1 - 1 / 2 ^ p) ^ 3" using c by simp
  have "(real_of_int d / 2 - 1 / 2) * (c * (1 - 1 / 2 ^ p) ^ 3)
          \<le> real_of_int ?n * (c * (1 - 1 / 2 ^ p) ^ 3)"
    using half_bounds(1) [of d] lo by (rule mult_right_mono)
  also have "\<dots> \<le> ieee_mul p ?n c"
    using ieee_mul_bounds(1) [OF n c, of p] by (simp only: mult.assoc)
  finally show "(real_of_int d / 2 - 1 / 2) * c * (1 - 1 / 2 ^ p) ^ 3 \<le> ieee_mul p ?n c"
    by (simp only: mult.assoc)
qed

text \<open>
  C3 (as amended). For an echo of \<open>D \<ge> 0\<close> microseconds both range finders store in
  \<^verbatim>\<open>distance\<close> the same whole number of centimetres: the integer part of the
  floating-point product of the integer quotient \<open>D / 2\<close> with 0.0343. With a significand
  of \<open>p\<close> bits it is at most \<open>(D/2) * 0.0343 * (1 + 2\<^sup>-\<^sup>p)\<^sup>3\<close> and more than
  \<open>(D/2 - 1/2) * 0.0343 * (1 - 2\<^sup>-\<^sup>p)\<^sup>3 - 1\<close>: below the real-valued distance by up to
  a centimetre, not within rounding of it.
\<close>

theorem distance_whole_centimetres:
  assumes "0 \<le> sint r"
  shows "distance (Ultrasonic (ieee_mul p) r s) = \<lfloor>ieee_mul p (sint r div 2) 0.0343\<rfloor> \<and>
         distance (loop_parking (ieee_mul p) r t) = distance (Ultrasonic (ieee_mul p) r s) \<and>
         real_of_int (distance (Ultrasonic (ieee_mul p) r s))
           \<le> real_of_int (sint r) / 2 * 0.0343 * (1 + 1 / 2 ^ p) ^ 3 \<and>
         (real_of_int (sint r) / 2 - 1 / 2) * 0.0343 * (1 - 1 / 2 ^ p) ^ 3 - 1
           < real_of_int (distance (Ultrasonic (ieee_mul p) r s))"
proof -
  let ?P = "ieee_mul p (sint r div 2) 0.0343"
  have c: "(0::real) \<le> 0.0343" by simp
  have d: "distance (Ultrasonic (ieee_mul p) r s) = \<lfloor>?P\<rfloor>"
    unfolding distance_Ultrasonic by (rule sonar_product(1) [OF assms c])
  have e: "distance (loop_parking (ieee_mul p) r t) = \<lfloor>?P\<rfloor>"
    unfolding distance_parking by (rule sonar_product(1) [OF assms c])
  have "real_of_int \<lfloor>?P\<rfloor> \<le> ?P" by (rule of_int_floor_le)
  with sonar_product(2) [OF assms c, of p]
  have up: "real_of_int \<lfloor>?P\<rfloor> \<le> real_of_int (sint r) / 2 * 0.0343 * (1 + 1 / 2 ^ p) ^ 3"
    by (rule order_trans [rotated])
  have "?P - 1 < real_of_int \<lfloor>?P\<rfloor>" by linarith
  with sonar_product(3) [OF assms c, of p]
  have lo: "(real_of_int (sint r) / 2 - 1 / 2) * 0.0343 * (1 - 1 / 2 ^ p) ^ 3 - 1 < real_of_int \<lfloor>?P\<rfloor>"
    by linarith
  show ?thesis unfolding d e using up lo by simp
qed

theorem distance_whole_centimetres_witness:
  "0 \<le> sint (1001 :: 32 word) \<and>
   distance (Ultrasonic (ieee_mul 24) 1001 sonar_quiet) = 17 \<and>
   distance (loop_parking (ieee_mul 24) 1001 sonar_quiet) = 17 \<and>
   (17 :: real) \<le> 1001 / 2 * 0.0343 * (1 + 1 / 2 ^ 24) ^ 3 \<and>
   (1001 / 2 - 1 / 2) * 0.0343 * (1 - 1 / 2 ^ 24) ^ 3 - 1 < (17 :: real)"
proof -
  have a: "0 \<le> sint (1001 :: 32 word)" by simp
  have d: "distance (Ultrasonic (ieee_mul 24) 1001 sonar_quiet) = 17"
    by (simp add: distance_Ultrasonic c_div_def product_500)
  show ?thesis
    using distance_whole_centimetres [OF a, of 24 sonar_quiet sonar_quiet] a d
    by simp
qed

text \<open>
  The distance is not the product itself: an echo of 1000 microseconds gives 17 in both
  sketches, with 4-byte and with 8-byte doubles, where \<open>(1000 / 2) * 0.0343\<close> is 17.15.
\<close>

theorem distance_counterexample:
  "distance (Ultrasonic (ieee_mul 24) 1000 sonar_quiet) = 17 \<and>
   distance (loop_parking (ieee_mul 24) 1000 sonar_quiet) = 17 \<and>
   distance (Ultrasonic (ieee_mul 53) 1000 sonar_quiet) = 17 \<and>
   distance (loop_parking (ieee_mul 53) 1000 sonar_quiet) = 17 \<and>
   real_of_int (sint (1000 :: 32 word)) / 2 * 0.0343 = 17.15"
  by (simp add: distance_Ultrasonic distance_parking c_div_def product_500 product_500_wide)

section \<open>Obstacle avoidance\<close>

lemma trace_forword: "trace (forword s) = trace s @
   [DigitalWrite IN1 HIGH, DigitalWrite IN2 LOW, DigitalWrite IN3 HIGH, DigitalWrite IN4 LOW,
    AnalogWrite speedL 150, AnalogWrite speedR 150]"
  by (simp add: forword_def prim_defs)

lemma trace_backword: "trace (backword s) = trace s @
   [DigitalWrite IN1 LOW, DigitalWrite IN2 HIGH, DigitalWrite IN3 LOW, DigitalWrite IN4 HIGH,
    AnalogWrite speedL 150, AnalogWrite speedR 150]"
  by (simp add: backword_def prim_defs)

lemma trace_right: "trace (right s) = trace s @
   [DigitalWrite IN1 HIGH, DigitalWrite IN2 LOW, DigitalWrite IN3 LOW, DigitalWrite IN4 LOW,
    AnalogWrite speedL 150, AnalogWrite speedR 0]"
  by (simp add: right_def prim_defs)

lemma trace_stopp_oa:
  "trace (stopp_oa s) = trace s @ [DigitalWrite speedL LOW, DigitalWrite speedR LOW]"
  by (simp add: stopp_oa_def prim_defs)

lemma trace_delay: "trace (delay n s) = trace s @ [Delay n]"
  by (simp add: delay_def)

lemma motor_delay: "motor_output (delay n s) = motor_output s"
  by (simp add: motor_output_def delay_def)

lemma trace_Ultrasonic: "trace (Ultrasonic fmul r s) = trace s @
   [DigitalWrite trig LOW, DelayMicroseconds 2, DigitalWrite trig HIGH, DelayMicroseconds 10,
    DigitalWrite trig LOW, PulseIn echo HIGH]"
  by (simp add: Ultrasonic_def prim_defs)

text \<open>Everything a pass does when the distance is below 20.\<close>

lemma emitted_near:
  assumes "distance (Ultrasonic fmul r s) < 20"
  shows "emitted (loop_obstacle fmul r) s =
    [DigitalWrite trig LOW, DelayMicroseconds 2, DigitalWrite trig HIGH, DelayMicroseconds 10,
     DigitalWrite trig LOW, PulseIn echo HIGH,
     DigitalWrite speedL LOW, DigitalWrite speedR LOW, Delay 250,
     DigitalWrite IN1 LOW, DigitalWrite IN2 HIGH, DigitalWrite IN3 LOW, DigitalWrite IN4 HIGH,
     AnalogWrite speedL 150, AnalogWrite speedR 150, Delay 500,
     DigitalWrite IN1 HIGH, DigitalWrite IN2 LOW, DigitalWrite IN3 LOW, DigitalWrite IN4 LOW,
     AnalogWrite speedL 150, AnalogWrite speedR 0, Delay 1000]"
  using assms
  by (intro emitted_trace)
     (simp add: loop_obstacle_def trace_delay trace_right trace_backword trace_stopp_oa
        trace_Ultrasonic)

text \<open>Everything a pass does when the distance is 20 or more.\<close>

lemma emitted_far:
  assumes "20 \<le> distance (Ultrasonic fmul r s)"
  shows "emitted (loop_obstacle fmul r) s =
    [DigitalWrite trig LOW, DelayMicroseconds 2, DigitalWrite trig HIGH, DelayMicroseconds 10,
     DigitalWrite trig LOW, PulseIn echo HIGH,
     DigitalWrite IN1 HIGH, DigitalWrite IN2 LOW, DigitalWrite IN3 HIGH, DigitalWrite IN4 LOW,
     AnalogWrite speedL 150, AnalogWrite speedR 150]"
  using assms
  by (intro emitted_trace) (simp add: loop_obstacle_def trace_forword trace_Ultrasonic)

lemma obstacle_near:
  assumes "distance (Ultrasonic fmul r s) < 20"
  shows "motor_holds (pins s) (emitted (loop_obstacle fmul r) s) =
        [((motor_output s)\<lparr>left_speed := 0, right_speed := 0\<rparr>, 250),
         (spec_table 150 150 Backward, 500),
         (spec_table 150 150 Right, 1000)]"
    and "motor_output (loop_obstacle fmul r s) = spec_table 150 150 Right"
proof -
  show "motor_holds (pins s) (emitted (loop_obstacle fmul r) s) =
        [((motor_output s)\<lparr>left_speed := 0, right_speed := 0\<rparr>, 250),
         (spec_table 150 150 Backward, 500),
         (spec_table 150 150 Right, 1000)]"
    unfolding emitted_near [OF assms]
    by (simp add: motor_output_def motor_of_pins_def trig_def motor_pins)
  show "motor_output (loop_obstacle fmul r s) = spec_table 150 150 Right"
    using assms by (simp add: loop_obstacle_def motor_delay motor_right)
qed

lemma obstacle_far:
  assumes "20 \<le> distance (Ultrasonic fmul r s)"
  shows "motor_holds (pins s) (emitted (loop_obstacle fmul r) s) = []"
    and "motor_output (loop_obstacle fmul r s) = spec_table 150 150 Forward"
proof -
  show "motor_holds (pins s) (emitted (loop_obstacle fmul r) s) = []"
    unfolding emitted_far [OF assms] by simp
  show "motor_output (loop_obstacle fmul r s) = spec_table 150 150 Forward"
    using assms by (simp add: loop_obstacle_def motor_forword)
qed

text \<open>
  C5 (as amended). One pass of the obstacle-avoiding loop with a measured distance below
  20 does exactly this after the measurement: \<^verbatim>\<open>stopp\<close>, 250 ms, \<^verbatim>\<open>backword\<close>, 500 ms,
  \<^verbatim>\<open>right\<close>, 1000 ms. During the first hold both speeds are 0 and the direction
  signals are what the previous pass left, which is not the Stop row of the table; the
  second hold has the Backward row, the third the Right row, and the pass ends with it.
  With a distance of 20 or more the pass calls \<^verbatim>\<open>forword\<close> and nothing else: no hold,
  and the Forward row at the end. The comparison is \<open><\<close>, so 20 itself is on the
  Forward side.
\<close>

theorem obstacle_threshold:
  "(distance (Ultrasonic fmul r s) < 20 \<longrightarrow>
      emitted (loop_obstacle fmul r) s =
        [DigitalWrite trig LOW, DelayMicroseconds 2, DigitalWrite trig HIGH, DelayMicroseconds 10,
         DigitalWrite trig LOW, PulseIn echo HIGH,
         DigitalWrite speedL LOW, DigitalWrite speedR LOW, Delay 250,
         DigitalWrite IN1 LOW, DigitalWrite IN2 HIGH, DigitalWrite IN3 LOW, DigitalWrite IN4 HIGH,
         AnalogWrite speedL 150, AnalogWrite speedR 150, Delay 500,
         DigitalWrite IN1 HIGH, DigitalWrite IN2 LOW, DigitalWrite IN3 LOW, DigitalWrite IN4 LOW,
         AnalogWrite speedL 150, AnalogWrite speedR 0, Delay 1000] \<and>
      motor_holds (pins s) (emitted (loop_obstacle fmul r) s) =
        [((motor_output s)\<lparr>left_speed := 0, right_speed := 0\<rparr>, 250),
         (spec_table 150 150 Backward, 500),
         (spec_table 150 150 Right, 1000)] \<and>
      motor_output (loop_obstacle fmul r s) = spec_table 150 150 Right) \<and>
   (20 \<le> distance (Ultrasonic fmul r s) \<longrightarrow>
      emitted (loop_obstacle fmul r) s =
        [DigitalWrite trig LOW, DelayMicroseconds 2, DigitalWrite trig HIGH, DelayMicroseconds 10,
         DigitalWrite trig LOW, PulseIn echo HIGH,
         DigitalWrite IN1 HIGH, DigitalWrite IN2 LOW, DigitalWrite IN3 HIGH, DigitalWrite IN4 LOW,
         AnalogWrite speedL 150, AnalogWrite speedR 150] \<and>
      motor_holds (pins s) (emitted (loop_obstacle fmul r) s) = [] \<and>
      motor_output (loop_obstacle fmul r s) = spec_table 150 150 Forward)"
  using emitted_near [of fmul r s] obstacle_near [of fmul r s]
    emitted_far [of fmul r s] obstacle_far [of fmul r s]
  by blast

theorem obstacle_threshold_witness:
  "distance (Ultrasonic (ieee_mul 24) 1166 sonar_quiet) = 19 \<and>
   motor_holds (pins sonar_quiet) (emitted (loop_obstacle (ieee_mul 24) 1166) sonar_quiet) =
     [(spec_table 150 150 Stop, 250), (spec_table 150 150 Backward, 500),
      (spec_table 150 150 Right, 1000)] \<and>
   motor_output (loop_obstacle (ieee_mul 24) 1166 sonar_quiet) = spec_table 150 150 Right \<and>
   distance (Ultrasonic (ieee_mul 24) 1168 sonar_quiet) = 20 \<and>
   motor_holds (pins sonar_quiet) (emitted (loop_obstacle (ieee_mul 24) 1168) sonar_quiet) = [] \<and>
   motor_output (loop_obstacle (ieee_mul 24) 1168 sonar_quiet) = spec_table 150 150 Forward"
proof -
  have a: "distance (Ultrasonic (ieee_mul 24) 1166 sonar_quiet) = 19"
    by (simp add: distance_Ultrasonic c_div_def product_583)
  have b: "distance (Ultrasonic (ieee_mul 24) 1168 sonar_quiet) = 20"
    by (simp add: distance_Ultrasonic c_div_def product_584)
  have q: "(motor_output sonar_quiet)\<lparr>left_speed := 0, right_speed := 0\<rparr> = spec_table 150 150 Stop"
    by (simp add: motor_output_def motor_of_pins_def sonar_quiet_def)
  show ?thesis
    using obstacle_threshold [of "ieee_mul 24" 1166 sonar_quiet]
      obstacle_threshold [of "ieee_mul 24" 1168 sonar_quiet] a b q
    by (simp add: motor_of_pins_def sonar_quiet_def trig_def motor_pins)
qed

text \<open>
  The first hold is not the Stop row in general: a pass that measured 34 cm drove
  forward; in the next pass, which measures 17 cm, the car is held for 250 ms with both
  forward signals still asserted and both speeds 0.
\<close>

theorem stop_hold_counterexample:
  "distance (Ultrasonic (ieee_mul 24) 2000 sonar_quiet) = 34 \<and>
   distance (Ultrasonic (ieee_mul 24) 1000 (loop_obstacle (ieee_mul 24) 2000 sonar_quiet)) = 17 \<and>
   motor_holds (pins (loop_obstacle (ieee_mul 24) 2000 sonar_quiet))
     (emitted (loop_obstacle (ieee_mul 24) 1000) (loop_obstacle (ieee_mul 24) 2000 sonar_quiet)) =
     [(\<lparr>left_fwd = True, left_bwd = False, right_fwd = True, right_bwd = False,
        left_speed = 0, right_speed = 0\<rparr>, 250),
      (spec_table 150 150 Backward, 500),
      (spec_table 150 150 Right, 1000)] \<and>
   \<lparr>left_fwd = True, left_bwd = False, right_fwd = True, right_bwd = False,
     left_speed = 0, right_speed = 0\<rparr> \<noteq> spec_table 150 150 Stop"
proof -
  let ?s1 = "loop_obstacle (ieee_mul 24) 2000 sonar_quiet"
  have a: "distance (Ultrasonic (ieee_mul 24) 2000 sonar_quiet) = 34"
    by (simp add: distance_Ultrasonic c_div_def product_1000)
  then have far: "20 \<le> distance (Ultrasonic (ieee_mul 24) 2000 sonar_quiet)" by simp
  have b: "distance (Ultrasonic (ieee_mul 24) 1000 ?s1) = 17"
    by (simp add: distance_Ultrasonic c_div_def product_500)
  then have near: "distance (Ultrasonic (ieee_mul 24) 1000 ?s1) < 20" by simp
  show ?thesis
    using a b obstacle_near(1) [OF near] obstacle_far(2) [OF far] by simp
qed

section \<open>An echo that never comes\<close>

lemma short_echo:
  assumes p: "24 \<le> p" and d0: "0 \<le> d" and d59: "d \<le> 59"
  shows "c_trunc (ieee_mul p (c_div d 2) 0.0343) = 0"
proof -
  let ?n = "d div 2"
  let ?P = "ieee_mul p ?n 0.0343"
  have c: "(0::real) \<le> 0.0343" by simp
  have n: "0 \<le> ?n" "?n \<le> 29" using d0 d59 by simp_all
  have "(2::real) ^ 24 \<le> 2 ^ p" using p by (intro power_increasing) simp_all
  then have "1 / (2::real) ^ p \<le> 1 / 2 ^ 24" by (intro divide_left_mono) simp_all
  then have "(1 + 1 / (2::real) ^ p) ^ 3 \<le> (1 + 1 / 2 ^ 24) ^ 3"
    by (intro power_mono) simp_all
  moreover have "real_of_int ?n * 0.0343 \<le> 29 * 0.0343" using n by simp
  ultimately have "real_of_int ?n * 0.0343 * (1 + 1 / 2 ^ p) ^ 3 \<le> 29 * 0.0343 * (1 + 1 / 2 ^ 24) ^ 3"
    using n by (intro mult_mono) simp_all
  also have "\<dots> < 1" by (simp add: power3_eq_cube)
  finally have "real_of_int ?n * 0.0343 * (1 + 1 / 2 ^ p) ^ 3 < 1" .
  with ieee_mul_bounds(2) [OF n(1) c, of p] have "?P < 1" by linarith
  moreover have "0 \<le> ?P" by (rule ieee_mul_bounds(3) [OF n(1) c])
  ultimately have "\<lfloor>?P\<rfloor> = 0" by linarith
  then show ?thesis unfolding sonar_product(1) [OF d0 c] .
qed

lemma emitted_parking:
  "emitted (loop_parking fmul r) s =
    [PinMode ULtrsonic OUTPUT, DigitalWrite ULtrsonic LOW, DelayMicroseconds 2,
     DigitalWrite ULtrsonic HIGH, DelayMicroseconds 10, DigitalWrite ULtrsonic LOW,
     PinMode ULtrsonic INPUT, PulseIn ULtrsonic HIGH,
     SerialPrintln (c_trunc (fmul (c_div (sint r) 2) 0.0343)), Delay 5,
     DigitalWrite Buzzer HIGH, DelayMicroseconds (c_div (sint r) 2),
     DigitalWrite Buzzer LOW, DelayMicroseconds (c_div (sint r) 2)]"
  by (intro emitted_trace) (simp add: loop_parking_def prim_defs)

text \<open>
  C4 (as amended). When \<^verbatim>\<open>pulseIn\<close> gives up and returns its time-out value 0, a
  range-finder call stores duration 0 and distance 0. That distance is no sentinel: every
  echo of up to 59 microseconds gives it too (with doubles of 24 bits or more), and no
  sketch tests for it. The obstacle-avoiding loop runs the manoeuvre of a near obstacle
  (stopped 250 ms, Backward 500 ms, Right 1000 ms); the parking loop prints 0 and keys
  the buzzer with two waits of 0 microseconds.
\<close>

theorem timeout_not_told_apart:
  "duration (Ultrasonic (ieee_mul p) pulseIn_timeout s) = 0 \<and>
   distance (Ultrasonic (ieee_mul p) pulseIn_timeout s) = 0 \<and>
   distance (loop_parking (ieee_mul p) pulseIn_timeout t) = 0 \<and>
   (24 \<le> p \<and> 0 \<le> sint r \<and> sint r \<le> 59 \<longrightarrow>
      distance (Ultrasonic (ieee_mul p) r s) = 0 \<and>
      distance (loop_parking (ieee_mul p) r t) = 0) \<and>
   motor_holds (pins s) (emitted (loop_obstacle (ieee_mul p) pulseIn_timeout) s) =
     [((motor_output s)\<lparr>left_speed := 0, right_speed := 0\<rparr>, 250),
      (spec_table 150 150 Backward, 500),
      (spec_table 150 150 Right, 1000)] \<and>
   filter (\<lambda>e. \<not> is_write e) (emitted (loop_parking (ieee_mul p) pulseIn_timeout) t) =
     [PinMode ULtrsonic OUTPUT, DelayMicroseconds 2, DelayMicroseconds 10, PinMode ULtrsonic INPUT,
      PulseIn ULtrsonic HIGH, SerialPrintln 0, Delay 5, DelayMicroseconds 0, DelayMicroseconds 0] \<and>
   wave Buzzer (emitted (loop_parking (ieee_mul p) pulseIn_timeout) t) = [(HIGH, 0), (LOW, 0)]"
proof -
  have z: "c_trunc (ieee_mul p (c_div (sint pulseIn_timeout) 2) 0.0343) = 0"
    by (simp add: pulseIn_timeout_def c_div_def ieee_mul_zero c_trunc_def)
  have d: "distance (Ultrasonic (ieee_mul p) pulseIn_timeout s) = 0"
    unfolding distance_Ultrasonic by (rule z)
  then have near: "distance (Ultrasonic (ieee_mul p) pulseIn_timeout s) < 20" by simp
  have e: "distance (loop_parking (ieee_mul p) pulseIn_timeout t) = 0"
    unfolding distance_parking by (rule z)
  have u: "duration (Ultrasonic (ieee_mul p) pulseIn_timeout s) = 0"
    by (simp add: duration_Ultrasonic pulseIn_timeout_def)
  have short: "distance (Ultrasonic (ieee_mul p) r s) = 0 \<and> distance (loop_parking (ieee_mul p) r t) = 0"
    if "24 \<le> p" "0 \<le> sint r" "sint r \<le> 59"
    unfolding distance_Ultrasonic distance_parking using short_echo [OF that] by simp
  have z0: "c_div (sint pulseIn_timeout) 2 = 0"
    by (simp add: pulseIn_timeout_def c_div_def)
  have park: "emitted (loop_parking (ieee_mul p) pulseIn_timeout) t =
    [PinMode ULtrsonic OUTPUT, DigitalWrite ULtrsonic LOW, DelayMicroseconds 2,
     DigitalWrite ULtrsonic HIGH, DelayMicroseconds 10, DigitalWrite ULtrsonic LOW,
     PinMode ULtrsonic INPUT, PulseIn ULtrsonic HIGH,
     SerialPrintln 0, Delay 5,
     DigitalWrite Buzzer HIGH, DelayMicroseconds 0,
     DigitalWrite Buzzer LOW, DelayMicroseconds 0]"
    unfolding emitted_parking z unfolding z0 by (rule refl)
  have w: "filter (\<lambda>e. \<not> is_write e) (emitted (loop_parking (ieee_mul p) pulseIn_timeout) t) =
     [PinMode ULtrsonic OUTPUT, DelayMicroseconds 2, DelayMicroseconds 10, PinMode ULtrsonic INPUT,
      PulseIn ULtrsonic HIGH, SerialPrintln 0, Delay 5, DelayMicroseconds 0, DelayMicroseconds 0]"
    unfolding park by simp
  have v: "wave Buzzer (emitted (loop_parking (ieee_mul p) pulseIn_timeout) t) = [(HIGH, 0), (LOW, 0)]"
    unfolding park by (simp add: Buzzer_def ULtrsonic_def)
  show ?thesis
    using u d e short obstacle_near(1) [OF near] w v by blast
qed

theorem timeout_not_told_apart_witness:
  "24 \<le> (24 :: nat) \<and> 0 \<le> sint (50 :: 32 word) \<and> sint (50 :: 32 word) \<le> 59 \<and>
   distance (Ultrasonic (ieee_mul 24) 50 sonar_quiet) = 0 \<and>
   distance (loop_parking (ieee_mul 24) 50 sonar_quiet) = 0 \<and>
   distance (Ultrasonic (ieee_mul 24) pulseIn_timeout sonar_quiet) = 0 \<and>
   motor_holds (pins sonar_quiet) (emitted (loop_obstacle (ieee_mul 24) pulseIn_timeout) sonar_quiet) =
     [(spec_table 150 150 Stop, 250), (spec_table 150 150 Backward, 500),
      (spec_table 150 150 Right, 1000)]"
proof -
  have q: "(motor_output sonar_quiet)\<lparr>left_speed := 0, right_speed := 0\<rparr> = spec_table 150 150 Stop"
    by (simp add: motor_output_def motor_of_pins_def sonar_quiet_def)
  show ?thesis
    using timeout_not_told_apart [of 24 sonar_quiet sonar_quiet 50] q by simp
qed

text \<open>
  The result of a time-out is not distinguishable: it is the distance of an echo of 50
  microseconds, and the obstacle-avoiding loop does the same with both, event for event.
\<close>

theorem timeout_counterexample:
  "distance (Ultrasonic (ieee_mul 24) pulseIn_timeout sonar_quiet) =
     distance (Ultrasonic (ieee_mul 24) 50 sonar_quiet) \<and>
   distance (loop_parking (ieee_mul 24) pulseIn_timeout sonar_quiet) =
     distance (loop_parking (ieee_mul 24) 50 sonar_quiet) \<and>
   emitted (loop_obstacle (ieee_mul 24) pulseIn_timeout) sonar_quiet =
     emitted (loop_obstacle (ieee_mul 24) 50) sonar_quiet \<and>
   pins (loop_obstacle (ieee_mul 24) pulseIn_timeout sonar_quiet) =
     pins (loop_obstacle (ieee_mul 24) 50 sonar_quiet)"
proof -
  have a: "distance (Ultrasonic (ieee_mul 24) pulseIn_timeout sonar_quiet) = 0"
    by (simp add: distance_Ultrasonic pulseIn_timeout_def c_div_def ieee_mul_zero c_trunc_def)
  have b: "distance (Ultrasonic (ieee_mul 24) 50 sonar_quiet) = 0"
    by (simp add: distance_Ultrasonic c_div_def product_25)
  have c: "distance (loop_parking (ieee_mul 24) pulseIn_timeout sonar_quiet) = 0"
    by (simp add: distance_parking pulseIn_timeout_def c_div_def ieee_mul_zero c_trunc_def)
  have d: "distance (loop_parking (ieee_mul 24) 50 sonar_quiet) = 0"
    by (simp add: distance_parking c_div_def product_25)
  have na: "distance (Ultrasonic (ieee_mul 24) pulseIn_timeout sonar_quiet) < 20" using a by simp
  have nb: "distance (Ultrasonic (ieee_mul 24) 50 sonar_quiet) < 20" using b by simp
  have p: "pins (loop_obstacle (ieee_mul 24) pulseIn_timeout sonar_quiet) =
     pins (loop_obstacle (ieee_mul 24) 50 sonar_quiet)"
    using na nb by (simp add: loop_obstacle_def Ultrasonic_def actuator_defs prim_defs)
  show ?thesis
    unfolding emitted_near [OF na] emitted_near [OF nb] using a b c d p by simp
qed

section \<open>The parking buzzer\<close>

text \<open>
  C9. In one pass of the parking loop the buzzer pin is written high, held for
  \<^verbatim>\<open>duration/2\<close> microseconds, written low and held for \<^verbatim>\<open>duration/2\<close> microseconds,
  \<^verbatim>\<open>duration\<close> being what \<^verbatim>\<open>pulseIn\<close> returned. The distance is printed on the
  serial line; no wait and no write of the pass depends on it.
\<close>

theorem buzzer_wave:
  "wave Buzzer (emitted (loop_parking fmul r) s) =
     [(HIGH, c_div (sint r) 2), (LOW, c_div (sint r) 2)] \<and>
   duration (loop_parking fmul r s) = sint r \<and>
   filter (\<lambda>e. \<not> is_write e) (emitted (loop_parking fmul r) s) =
     [PinMode ULtrsonic OUTPUT, DelayMicroseconds 2, DelayMicroseconds 10, PinMode ULtrsonic INPUT,
      PulseIn ULtrsonic HIGH, SerialPrintln (distance (loop_parking fmul r s)), Delay 5,
      DelayMicroseconds (c_div (sint r) 2), DelayMicroseconds (c_div (sint r) 2)] \<and>
   filter is_write (emitted (loop_parking fmul r) s) =
     [DigitalWrite ULtrsonic LOW, DigitalWrite ULtrsonic HIGH, DigitalWrite ULtrsonic LOW,
      DigitalWrite Buzzer HIGH, DigitalWrite Buzzer LOW]"
proof -
  have du: "duration (loop_parking fmul r s) = sint r"
    by (simp add: loop_parking_def prim_defs)
  show ?thesis
    unfolding emitted_parking du distance_parking
    by (simp add: Buzzer_def ULtrsonic_def)
qed

section \<open>The two LEDs\<close>

text \<open>
  C10 (as amended). A pass of the loop that reads the button pressed drives exactly one
  LED on: red on and green off when the counter is 0 (the counter becomes 1), green on
  and red off when the counter is 1 (the counter becomes 0). A pass that reads the button
  released drives both LEDs off and clears the display, the counter unchanged.
\<close>

theorem led_iteration:
  "(pressed = HIGH \<and> counter s = 0 \<longrightarrow>
      led_on Red_led (loop_led pressed s) \<and> \<not> led_on Green_led (loop_led pressed s) \<and>
      counter (loop_led pressed s) = 1 \<and>
      emitted (loop_led pressed) s =
        [DigitalWrite Red_led HIGH, LcdPrint ''Red led '', DigitalWrite Green_led LOW, Delay 1000]) \<and>
   (pressed = HIGH \<and> counter s = 1 \<longrightarrow>
      \<not> led_on Red_led (loop_led pressed s) \<and> led_on Green_led (loop_led pressed s) \<and>
      counter (loop_led pressed s) = 0 \<and>
      emitted (loop_led pressed) s =
        [DigitalWrite Red_led LOW, DigitalWrite Green_led HIGH, LcdPrint ''Green led '', Delay 1000]) \<and>
   (pressed = LOW \<longrightarrow>
      \<not> led_on Red_led (loop_led pressed s) \<and> \<not> led_on Green_led (loop_led pressed s) \<and>
      counter (loop_led pressed s) = counter s \<and>
      emitted (loop_led pressed) s =
        [DigitalWrite Red_led LOW, DigitalWrite Green_led LOW, LcdClear])"
  by (cases pressed)
     (simp_all add: loop_led_def led_on_def emitted_def prim_defs Red_led_def Green_led_def)

theorem led_iteration_witness:
  "led_on Red_led (loop_led HIGH led_quiet) \<and> \<not> led_on Green_led (loop_led HIGH led_quiet) \<and>
   counter (loop_led HIGH led_quiet) = 1 \<and>
   \<not> led_on Red_led (loop_led HIGH (led_quiet\<lparr>counter := 1\<rparr>)) \<and>
   led_on Green_led (loop_led HIGH (led_quiet\<lparr>counter := 1\<rparr>)) \<and>
   counter (loop_led HIGH (led_quiet\<lparr>counter := 1\<rparr>)) = 0 \<and>
   \<not> led_on Red_led (loop_led LOW (led_quiet\<lparr>counter := 1\<rparr>)) \<and>
   \<not> led_on Green_led (loop_led LOW (led_quiet\<lparr>counter := 1\<rparr>)) \<and>
   counter (loop_led LOW (led_quiet\<lparr>counter := 1\<rparr>)) = 1"
  using led_iteration [of HIGH led_quiet] led_iteration [of HIGH "led_quiet\<lparr>counter := 1\<rparr>"]
    led_iteration [of LOW "led_quiet\<lparr>counter := 1\<rparr>"]
  by (simp add: led_quiet_def)

text \<open>
  Not every pass has one LED on: one press lights the red LED and sets the counter to 1; the next
  pass, with the button released, drives both LEDs off and the counter is still 1.
\<close>

theorem led_both_off_counterexample:
  "counter (loop_led HIGH led_quiet) = 1 \<and> led_on Red_led (loop_led HIGH led_quiet) \<and>
   counter (loop_led LOW (loop_led HIGH led_quiet)) = 1 \<and>
   \<not> led_on Red_led (loop_led LOW (loop_led HIGH led_quiet)) \<and>
   \<not> led_on Green_led (loop_led LOW (loop_led HIGH led_quiet))"
  by (simp add: loop_led_def led_on_def led_quiet_def prim_defs Red_led_def Green_led_def)

end
